theory Spec2Isabelle
  imports Main "HOL-Library.Sublist"
begin

section \<open>Fetch-and-store task: the handler of \<^verbatim>\<open>src/main.py\<close>\<close>

text \<open>
  The program is one Python function, \<^verbatim>\<open>lambda_handler(event, context)\<close>. It builds a
  form-encoded POST request, hands it to \<^verbatim>\<open>urllib.request.urlopen\<close>, reads the
  whole response body, creates an S3 client and calls \<^verbatim>\<open>put_object\<close> with the
  bytes it read, and returns a two-entry dictionary.

  The embedding threads an explicit world through the calls the handler makes to the
  outside: the calls are recorded in order, the object store is a map from
  (bucket, key) to the object held there. What the outside answers to each call is not
  decided by the program; it is a parameter (\<open>env\<close>), and every theorem below holds
  for every such answer. Every call that can raise in the source is a branch that returns
  \<open>Inl\<close> of the error, with the world as it is at that point.
\<close>

subsection \<open>Python values\<close>

text \<open>
  A Python \<^verbatim>\<open>str\<close> is a sequence of Unicode code points, a \<^verbatim>\<open>bytes\<close> object a
  sequence of octets. The success message of the handler contains code points above
  255, so \<open>str\<close> is a list of naturals; \<open>bytes\<close> is a list of 8-bit characters.
\<close>

type_synonym str = "nat list"
type_synonym bytes = "char list"

definition str_lit :: "string \<Rightarrow> str" where
  \<comment> \<open>an ASCII string literal of the source, as code points\<close>
  "str_lit cs = map of_char cs"

datatype error =
    UnicodeEncodeError
  | URLError
  | HTTPError nat
  | IncompleteRead
  | BotoCoreError
  | ClientError

datatype pyval = PyInt int | PyStr str

type_synonym result = "(str \<times> pyval) list"

subsection \<open>\<^verbatim>\<open>str.encode("utf-8")\<close> and \<^verbatim>\<open>urllib.parse.urlencode\<close>\<close>

text \<open>
  The two library functions that compute the request body, after CPython:
  \<^verbatim>\<open>encode("utf-8")\<close> (error handler \<^verbatim>\<open>strict\<close>: a surrogate raises), and
  \<^verbatim>\<open>urlencode\<close> of a dictionary of strings, which joins \<^verbatim>\<open>quote_plus(k) + '=' +
  quote_plus(v)\<close> with \<^verbatim>\<open>&\<close> in the dictionary's insertion order.
\<close>

definition utf8_encode_cp :: "nat \<Rightarrow> error + bytes" where
  "utf8_encode_cp c =
     (if c < 0x80 then Inr [char_of c]
      else if c < 0x800 then
        Inr [char_of (0xC0 + c div 0x40), char_of (0x80 + c mod 0x40)]
      else if 0xD800 \<le> c \<and> c \<le> 0xDFFF then Inl UnicodeEncodeError
      else if c < 0x10000 then
        Inr [char_of (0xE0 + c div 0x1000), char_of (0x80 + (c div 0x40) mod 0x40),
             char_of (0x80 + c mod 0x40)]
      else if c < 0x110000 then
        Inr [char_of (0xF0 + c div 0x40000), char_of (0x80 + (c div 0x1000) mod 0x40),
             char_of (0x80 + (c div 0x40) mod 0x40), char_of (0x80 + c mod 0x40)]
      else Inl UnicodeEncodeError)"

fun encode_utf8 :: "str \<Rightarrow> error + bytes" where
  "encode_utf8 [] = Inr []"
| "encode_utf8 (c # cs) =
     (case utf8_encode_cp c of
        Inl e \<Rightarrow> Inl e
      | Inr bs \<Rightarrow> (case encode_utf8 cs of Inl e \<Rightarrow> Inl e | Inr rest \<Rightarrow> Inr (bs @ rest)))"

definition always_safe :: "nat \<Rightarrow> bool" where
  \<comment> \<open>\<^verbatim>\<open>_ALWAYS_SAFE\<close>: letters, digits and \<^verbatim>\<open>_.-~\<close>\<close>
  "always_safe c =
     ((0x41 \<le> c \<and> c \<le> 0x5A) \<or> (0x61 \<le> c \<and> c \<le> 0x7A) \<or> (0x30 \<le> c \<and> c \<le> 0x39)
      \<or> c = 0x5F \<or> c = 0x2E \<or> c = 0x2D \<or> c = 0x7E)"

definition hex_digit :: "nat \<Rightarrow> nat" where
  "hex_digit d = (if d < 10 then 0x30 + d else 0x41 + (d - 10))"

definition quote_byte :: "str \<Rightarrow> char \<Rightarrow> str" where
  \<comment> \<open>\<^verbatim>\<open>chr(b) if b in safe else '%{:02X}'.format(b)\<close>\<close>
  "quote_byte safe b =
     (let c = of_char b in
      if always_safe c \<or> (c < 0x80 \<and> c \<in> set safe) then [c]
      else [0x25, hex_digit (c div 16), hex_digit (c mod 16)])"

definition quote_from_bytes :: "bytes \<Rightarrow> str \<Rightarrow> str" where
  "quote_from_bytes bs safe = concat (map (quote_byte safe) bs)"

definition quote :: "str \<Rightarrow> str \<Rightarrow> error + str" where
  "quote s safe =
     (if s = [] then Inr s
      else case encode_utf8 s of
             Inl e \<Rightarrow> Inl e
           | Inr bs \<Rightarrow> Inr (quote_from_bytes bs safe))"

definition quote_plus :: "str \<Rightarrow> error + str" where
  "quote_plus s =
     (if 0x20 \<notin> set s then quote s []
      else case quote s [0x20] of
             Inl e \<Rightarrow> Inl e
           | Inr q \<Rightarrow> Inr (map (\<lambda>c. if c = 0x20 then 0x2B else c) q))"

fun join :: "str \<Rightarrow> str list \<Rightarrow> str" where
  "join sep [] = []"
| "join sep [x] = x"
| "join sep (x # y # ys) = x @ sep @ join sep (y # ys)"

fun urlencode_items :: "(str \<times> str) list \<Rightarrow> error + str list" where
  "urlencode_items [] = Inr []"
| "urlencode_items ((k, v) # kvs) =
     (case quote_plus k of
        Inl e \<Rightarrow> Inl e
      | Inr k' \<Rightarrow>
         (case quote_plus v of
            Inl e \<Rightarrow> Inl e
          | Inr v' \<Rightarrow>
             (case urlencode_items kvs of
                Inl e \<Rightarrow> Inl e
              | Inr l \<Rightarrow> Inr ((k' @ str_lit ''='' @ v') # l))))"

definition urlencode :: "(str \<times> str) list \<Rightarrow> error + str" where
  "urlencode query =
     (case urlencode_items query of
        Inl e \<Rightarrow> Inl e
      | Inr l \<Rightarrow> Inr (join (str_lit ''&'') l))"

subsection \<open>The request, the object store and the world\<close>

text \<open>
  \<^verbatim>\<open>urllib.request.Request(url, data=...)\<close> holds the URL, the body and the headers
  added so far; its method is POST exactly when it has a body
  (\<^verbatim>\<open>Request.get_method\<close>). The header name is kept as the source writes it:
  HTTP header names are case-insensitive, and urllib puts this one on the wire as
  \<^verbatim>\<open>Content-Type\<close>.
\<close>

record request =
  full_url :: str
  data :: "bytes option"
  headers :: "(str \<times> str) list"

definition Request :: "str \<Rightarrow> bytes option \<Rightarrow> request" where
  "Request url d = \<lparr>full_url = url, data = d, headers = []\<rparr>"

fun dict_set :: "'k \<Rightarrow> 'v \<Rightarrow> ('k \<times> 'v) list \<Rightarrow> ('k \<times> 'v) list" where
  \<comment> \<open>\<^verbatim>\<open>d[k] = v\<close> on a dictionary kept in insertion order\<close>
  "dict_set k v [] = [(k, v)]"
| "dict_set k v ((k', v') # kvs) =
     (if k' = k then (k, v) # kvs else (k', v') # dict_set k v kvs)"

definition add_header :: "request \<Rightarrow> str \<Rightarrow> str \<Rightarrow> request" where
  "add_header req key val = req\<lparr>headers := dict_set key val (headers req)\<rparr>"

datatype http_method = GET | POST

definition get_method :: "request \<Rightarrow> http_method" where
  "get_method req = (case data req of None \<Rightarrow> GET | Some _ \<Rightarrow> POST)"

text \<open>The response object that \<^verbatim>\<open>urlopen\<close> returns: what its \<^verbatim>\<open>read()\<close> yields.\<close>

datatype response = Response (read_result: "error + bytes")

text \<open>The keyword arguments of \<^verbatim>\<open>put_object\<close>, and an object as the store holds it.\<close>

record put_args =
  Bucket :: str
  Key :: str
  Body :: bytes
  ContentType :: str

record s3_object =
  object_body :: bytes
  object_content_type :: str

text \<open>
  The calls that leave the process, in the order they are made: \<open>HttpRequest\<close> when
  \<^verbatim>\<open>urlopen\<close> is called with a request, \<open>HttpBodyRead\<close> when \<^verbatim>\<open>response.read()\<close> has
  returned the whole body, \<open>S3PutObject\<close> when \<^verbatim>\<open>put_object\<close> is called.
\<close>

datatype event =
    HttpRequest request
  | HttpBodyRead bytes
  | S3PutObject put_args

record world =
  events :: "event list"
  s3_store :: "str \<times> str \<Rightarrow> s3_object option"

text \<open>
  What the outside answers in one invocation: \<^verbatim>\<open>urlopen\<close> raises or returns a
  response, \<^verbatim>\<open>boto3.client\<close> raises or returns a client, \<^verbatim>\<open>put_object\<close> raises or
  stores the object. A \<^verbatim>\<open>put_object\<close> that raises leaves the store as it was. The
  \<^verbatim>\<open>with\<close> block closes the response whether or not \<^verbatim>\<open>read()\<close> raises; closing
  changes neither the store nor the record of calls.
\<close>

record env =
  urlopen_result :: "request \<Rightarrow> error + response"
  client_result :: "str \<Rightarrow> error option"
  put_object_result :: "put_args \<Rightarrow> error option"

definition urlopen :: "env \<Rightarrow> request \<Rightarrow> world \<Rightarrow> (error + response) \<times> world" where
  "urlopen env req w = (urlopen_result env req, w\<lparr>events := events w @ [HttpRequest req]\<rparr>)"

definition read :: "response \<Rightarrow> world \<Rightarrow> (error + bytes) \<times> world" where
  "read resp w =
     (case read_result resp of
        Inl e \<Rightarrow> (Inl e, w)
      | Inr b \<Rightarrow> (Inr b, w\<lparr>events := events w @ [HttpBodyRead b]\<rparr>))"

datatype s3_client = S3Client

definition boto3_client :: "env \<Rightarrow> str \<Rightarrow> error + s3_client" where
  "boto3_client env service =
     (case client_result env service of Some e \<Rightarrow> Inl e | None \<Rightarrow> Inr S3Client)"

definition put_object :: "env \<Rightarrow> s3_client \<Rightarrow> put_args \<Rightarrow> world \<Rightarrow> (error + unit) \<times> world" where
  "put_object env s3 a w =
     (let w1 = w\<lparr>events := events w @ [S3PutObject a]\<rparr> in
      case put_object_result env a of
        Some e \<Rightarrow> (Inl e, w1)
      | None \<Rightarrow>
          (Inr (),
           w1\<lparr>s3_store := (s3_store w1)((Bucket a, Key a) \<mapsto>
                 \<lparr>object_body = Body a, object_content_type = ContentType a\<rparr>)\<rparr>))"

subsection \<open>The handler\<close>

definition message_prefix :: str where
  \<comment> \<open>the literal part of the f-string: \<^verbatim>\<open>XML \<close>, the Czech words for
      ``successfully saved'' with their five non-ASCII letters, \<^verbatim>\<open> do s3://\<close>\<close>
  "message_prefix =
     str_lit ''XML '' @ [0xFA] @ str_lit ''sp'' @ [0x11B, 0x161] @ str_lit ''n'' @ [0x11B]
     @ str_lit '' ulo'' @ [0x17E] @ str_lit ''en do s3://''"

definition lambda_handler :: "'e \<Rightarrow> 'c \<Rightarrow> env \<Rightarrow> world \<Rightarrow> (error + result) \<times> world" where
  "lambda_handler event context env w =
     (let url = str_lit ''https://www.autocaris.cz/downloadcontent/cars.php'';
          post_data = [(str_lit ''name'', str_lit ''''),
                       (str_lit ''password'', str_lit ''''),
                       (str_lit ''id'', str_lit '''')]
      in
      case urlencode post_data of
        Inl e \<Rightarrow> (Inl e, w)
      | Inr query \<Rightarrow>
     (case encode_utf8 query of
        Inl e \<Rightarrow> (Inl e, w)
      | Inr data_encoded \<Rightarrow>
     (let req = Request url (Some data_encoded);
          req = add_header req (str_lit ''Content-Type'')
                  (str_lit ''application/x-www-form-urlencoded'')
      in
      case urlopen env req w of
        (Inl e, w1) \<Rightarrow> (Inl e, w1)
      | (Inr response, w1) \<Rightarrow>
     (case read response w1 of
        (Inl e, w2) \<Rightarrow> (Inl e, w2)
      | (Inr xml_data, w2) \<Rightarrow>
     (case boto3_client env (str_lit ''s3'') of
        Inl e \<Rightarrow> (Inl e, w2)
      | Inr s3 \<Rightarrow>
     (let bucket_name = str_lit ''autocaris-data'';
          s3_key = str_lit ''inzeraty/inzeraty_usti.xml''
      in
      case put_object env s3
             \<lparr>Bucket = bucket_name, Key = s3_key, Body = xml_data,
              ContentType = str_lit ''application/xml''\<rparr> w2 of
        (Inl e, w3) \<Rightarrow> (Inl e, w3)
      | (Inr _, w3) \<Rightarrow>
          (Inr [(str_lit ''statusCode'', PyInt 200),
                (str_lit ''body'',
                 PyStr (message_prefix @ bucket_name @ str_lit ''/'' @ s3_key))],
           w3)))))))"

subsection \<open>Reading the record of calls\<close>

text \<open>
  The calls one invocation adds to the record, and the requests and the
  \<^verbatim>\<open>put_object\<close> calls among a list of calls.
\<close>

definition new_events :: "world \<Rightarrow> world \<Rightarrow> event list" where
  "new_events w w' = drop (length (events w)) (events w')"

fun http_requests :: "event list \<Rightarrow> request list" where
  "http_requests [] = []"
| "http_requests (HttpRequest req # es) = req # http_requests es"
| "http_requests (HttpBodyRead b # es) = http_requests es"
| "http_requests (S3PutObject a # es) = http_requests es"

fun put_calls :: "event list \<Rightarrow> put_args list" where
  "put_calls [] = []"
| "put_calls (HttpRequest req # es) = put_calls es"
| "put_calls (HttpBodyRead b # es) = put_calls es"
| "put_calls (S3PutObject a # es) = a # put_calls es"

text \<open>
  The values the handler computes on lines 7 to 19 and 27 to 40, written out: the request
  it sends, the arguments of its \<^verbatim>\<open>put_object\<close> call for a body \<open>b\<close>, the object
  that call stores, and the dictionary it returns.
\<close>

definition autocaris_request :: request where
  "autocaris_request =
     \<lparr>full_url = str_lit ''https://www.autocaris.cz/downloadcontent/cars.php'',
      data = Some ''name=&password=&id='',
      headers = [(str_lit ''Content-Type'', str_lit ''application/x-www-form-urlencoded'')]\<rparr>"

definition autocaris_put :: "bytes \<Rightarrow> put_args" where
  "autocaris_put b =
     \<lparr>Bucket = str_lit ''autocaris-data'', Key = str_lit ''inzeraty/inzeraty_usti.xml'',
      Body = b, ContentType = str_lit ''application/xml''\<rparr>"

definition autocaris_object :: "bytes \<Rightarrow> s3_object" where
  "autocaris_object b = \<lparr>object_body = b, object_content_type = str_lit ''application/xml''\<rparr>"

definition autocaris_key :: "str \<times> str" where
  "autocaris_key = (str_lit ''autocaris-data'', str_lit ''inzeraty/inzeraty_usti.xml'')"

definition success_result :: result where
  "success_result =
     [(str_lit ''statusCode'', PyInt 200),
      (str_lit ''body'',
       PyStr (str_lit ''XML '' @ [0xFA] @ str_lit ''sp'' @ [0x11B, 0x161] @ str_lit ''n''
              @ [0x11B] @ str_lit '' ulo'' @ [0x17E]
              @ str_lit ''en do s3://autocaris-data/inzeraty/inzeraty_usti.xml''))]"

subsection \<open>Sample worlds and environments\<close>

text \<open>
  An empty world, and five environments: the upstream answers \<open>b\<close> and the store accepts
  the object; the upstream is unreachable; the upstream answers with status 503; the
  connection breaks while the body is read; the upstream answers \<open>b\<close> and the store
  refuses the write.
\<close>

definition world0 :: world where
  "world0 = \<lparr>events = [], s3_store = (\<lambda>bk. None)\<rparr>"

definition env_ok :: "bytes \<Rightarrow> env" where
  "env_ok b =
     \<lparr>urlopen_result = (\<lambda>req. Inr (Response (Inr b))),
      client_result = (\<lambda>service. None),
      put_object_result = (\<lambda>a. None)\<rparr>"

definition env_unreachable :: env where
  "env_unreachable =
     \<lparr>urlopen_result = (\<lambda>req. Inl URLError),
      client_result = (\<lambda>service. None),
      put_object_result = (\<lambda>a. None)\<rparr>"

definition env_http_503 :: env where
  "env_http_503 =
     \<lparr>urlopen_result = (\<lambda>req. Inl (HTTPError 503)),
      client_result = (\<lambda>service. None),
      put_object_result = (\<lambda>a. None)\<rparr>"


definition env_store_refuses :: "bytes \<Rightarrow> env" where
  "env_store_refuses b =
     \<lparr>urlopen_result = (\<lambda>req. Inr (Response (Inr b))),
      client_result = (\<lambda>service. None),
      put_object_result = (\<lambda>a. Some ClientError)\<rparr>"

section \<open>Properties\<close>

subsection \<open>The request body\<close>

lemma post_data_urlencoded:
  "urlencode [(str_lit ''name'', str_lit ''''), (str_lit ''password'', str_lit ''''),
              (str_lit ''id'', str_lit '''')]
   = Inr (str_lit ''name=&password=&id='')"
  by code_simp

lemma query_utf8: "encode_utf8 (str_lit ''name=&password=&id='') = Inr ''name=&password=&id=''"
  by code_simp

lemma built_request:
  "add_header
     (Request (str_lit ''https://www.autocaris.cz/downloadcontent/cars.php'')
        (Some ''name=&password=&id=''))
     (str_lit ''Content-Type'') (str_lit ''application/x-www-form-urlencoded'')
   = autocaris_request"
  by (simp add: add_header_def Request_def autocaris_request_def)

lemma message_eq:
  "message_prefix @ str_lit ''autocaris-data'' @ str_lit ''/''
     @ str_lit ''inzeraty/inzeraty_usti.xml''
   = str_lit ''XML '' @ [0xFA] @ str_lit ''sp'' @ [0x11B, 0x161] @ str_lit ''n''
     @ [0x11B] @ str_lit '' ulo'' @ [0x17E]
     @ str_lit ''en do s3://autocaris-data/inzeraty/inzeraty_usti.xml''"
  by (simp add: message_prefix_def str_lit_def)

subsection \<open>The handler, outcome by outcome\<close>

text \<open>
  The handler has one path; where it stops is decided by the first call that raises.
  The five outcomes, each with the result and the world it leaves.
\<close>

lemma lambda_handler_outcomes:
  "lambda_handler event context env w =
     (case urlopen_result env autocaris_request of
        Inl e \<Rightarrow> (Inl e, w\<lparr>events := events w @ [HttpRequest autocaris_request]\<rparr>)
      | Inr resp \<Rightarrow>
     (case read_result resp of
        Inl e \<Rightarrow> (Inl e, w\<lparr>events := events w @ [HttpRequest autocaris_request]\<rparr>)
      | Inr b \<Rightarrow>
     (case client_result env (str_lit ''s3'') of
        Some e \<Rightarrow>
          (Inl e, w\<lparr>events := events w @ [HttpRequest autocaris_request, HttpBodyRead b]\<rparr>)
      | None \<Rightarrow>
     (case put_object_result env (autocaris_put b) of
        Some e \<Rightarrow>
          (Inl e, w\<lparr>events := events w @ [HttpRequest autocaris_request, HttpBodyRead b,
                                           S3PutObject (autocaris_put b)]\<rparr>)
      | None \<Rightarrow>
          (Inr success_result,
           w\<lparr>events := events w @ [HttpRequest autocaris_request, HttpBodyRead b,
                                   S3PutObject (autocaris_put b)],
             s3_store := (s3_store w)(autocaris_key \<mapsto> autocaris_object b)\<rparr>)))))"
  by (simp add: lambda_handler_def post_data_urlencoded query_utf8 built_request message_eq
        success_result_def urlopen_def read_def boto3_client_def put_object_def autocaris_put_def autocaris_key_def
        autocaris_object_def Let_def
      split: sum.splits option.splits)

lemma new_events_append [simp]:
  "new_events w (w\<lparr>events := events w @ evs\<rparr>) = evs"
  "new_events w (w\<lparr>events := events w @ evs, s3_store := st\<rparr>) = evs"
  by (simp_all add: new_events_def)

lemma lambda_handler_cases [consumes 1, case_names urlopen_raises read_raises client_raises
    put_object_raises returns]:
  assumes "lambda_handler event context env w = (r, w')"
  obtains
    e where "urlopen_result env autocaris_request = Inl e" and "r = Inl e"
      and "w' = w\<lparr>events := events w @ [HttpRequest autocaris_request]\<rparr>"
  | resp e where "urlopen_result env autocaris_request = Inr resp"
      and "read_result resp = Inl e" and "r = Inl e"
      and "w' = w\<lparr>events := events w @ [HttpRequest autocaris_request]\<rparr>"
  | resp b e where "urlopen_result env autocaris_request = Inr resp"
      and "read_result resp = Inr b" and "client_result env (str_lit ''s3'') = Some e"
      and "r = Inl e"
      and "w' = w\<lparr>events := events w @ [HttpRequest autocaris_request, HttpBodyRead b]\<rparr>"
  | resp b e where "urlopen_result env autocaris_request = Inr resp"
      and "read_result resp = Inr b" and "client_result env (str_lit ''s3'') = None"
      and "put_object_result env (autocaris_put b) = Some e" and "r = Inl e"
      and "w' = w\<lparr>events := events w @ [HttpRequest autocaris_request, HttpBodyRead b,
                                          S3PutObject (autocaris_put b)]\<rparr>"
  | resp b where "urlopen_result env autocaris_request = Inr resp"
      and "read_result resp = Inr b" and "client_result env (str_lit ''s3'') = None"
      and "put_object_result env (autocaris_put b) = None" and "r = Inr success_result"
      and "w' = w\<lparr>events := events w @ [HttpRequest autocaris_request, HttpBodyRead b,
                                          S3PutObject (autocaris_put b)],
                    s3_store := (s3_store w)(autocaris_key \<mapsto> autocaris_object b)\<rparr>"
  using assms unfolding lambda_handler_outcomes
  by (auto split: sum.splits option.splits)

lemma autocaris_request_shape:
  "get_method autocaris_request = POST"
  "full_url autocaris_request = str_lit ''https://www.autocaris.cz/downloadcontent/cars.php''"
  "headers autocaris_request
     = [(str_lit ''Content-Type'', str_lit ''application/x-www-form-urlencoded'')]"
  "data autocaris_request = Some ''name=&password=&id=''"
  by (simp_all add: autocaris_request_def get_method_def)

lemma put_calls_shape:
  "Bucket (autocaris_put b) = str_lit ''autocaris-data''"
  "Key (autocaris_put b) = str_lit ''inzeraty/inzeraty_usti.xml''"
  "Body (autocaris_put b) = b"
  "ContentType (autocaris_put b) = str_lit ''application/xml''"
  by (simp_all add: autocaris_put_def)

lemma success_result_lookup:
  "map_of success_result (str_lit ''statusCode'') = Some (PyInt 200)"
  "map_of success_result (str_lit ''body'')
     = Some (PyStr (message_prefix @ str_lit ''autocaris-data'' @ str_lit ''/''
                    @ str_lit ''inzeraty/inzeraty_usti.xml''))"
  by (simp_all add: success_result_def message_prefix_def str_lit_def)

subsection \<open>Pass-through of the response body\<close>

text \<open>
  C1. Whatever byte sequence \<open>B\<close> the upstream returns as the response body, empty
  or not, XML or not: every \<^verbatim>\<open>put_object\<close> call of the invocation carries exactly
  \<open>B\<close> as its body; once the client exists there is exactly one such call; and when
  the handler returns normally the object held at the fixed key has body \<open>B\<close>.
\<close>

theorem pass_through:
  assumes "urlopen_result env autocaris_request = Inr resp"
      and "read_result resp = Inr B"
      and "lambda_handler event context env w = (r, w')"
  shows "list_all (\<lambda>a. Body a = B) (put_calls (new_events w w'))
       \<and> (client_result env (str_lit ''s3'') = None \<longrightarrow>
            (\<exists>a. put_calls (new_events w w') = [a] \<and> Body a = B))
       \<and> (\<forall>res. r = Inr res \<longrightarrow>
            (\<exists>obj. s3_store w' (str_lit ''autocaris-data'', str_lit ''inzeraty/inzeraty_usti.xml'')
                     = Some obj \<and> object_body obj = B))"
  using assms
  by (auto simp: lambda_handler_outcomes autocaris_put_def autocaris_key_def
        autocaris_object_def split: option.splits)

text \<open>
  The empty body, in an empty world whose store accepts the write.
\<close>

theorem pass_through_witness:
  "put_calls (new_events world0 (snd (lambda_handler ''tick'' () (env_ok []) world0)))
     = [autocaris_put []]
   \<and> s3_store (snd (lambda_handler ''tick'' () (env_ok []) world0))
        (str_lit ''autocaris-data'', str_lit ''inzeraty/inzeraty_usti.xml'')
     = Some \<lparr>object_body = [], object_content_type = str_lit ''application/xml''\<rparr>"
proof -
  have h1: "urlopen_result (env_ok []) autocaris_request = Inr (Response (Inr []))"
    by (simp add: env_ok_def)
  have h2: "read_result (Response (Inr [])) = Inr []"
    by simp
  have h3: "lambda_handler ''tick'' () (env_ok []) world0
              = (fst (lambda_handler ''tick'' () (env_ok []) world0),
                 snd (lambda_handler ''tick'' () (env_ok []) world0))"
    by simp
  from pass_through [OF h1 h2 h3] show ?thesis
    by (simp add: lambda_handler_outcomes env_ok_def autocaris_key_def autocaris_object_def)
qed

subsection \<open>Shape of the request\<close>

text \<open>
  C2. Every invocation, whatever the outside answers, hands exactly one request to
  \<^verbatim>\<open>urlopen\<close>: a POST to the fixed URL, with the header
  \<^verbatim>\<open>Content-Type: application/x-www-form-urlencoded\<close> and the body
  \<^verbatim>\<open>name=&password=&id=\<close>, which is the UTF-8 encoding of that string.
\<close>

theorem request_shape:
  assumes "lambda_handler event context env w = (r, w')"
  shows "\<exists>req. http_requests (new_events w w') = [req]
           \<and> get_method req = POST
           \<and> full_url req = str_lit ''https://www.autocaris.cz/downloadcontent/cars.php''
           \<and> headers req = [(str_lit ''Content-Type'',
                              str_lit ''application/x-www-form-urlencoded'')]
           \<and> data req = Some ''name=&password=&id=''
           \<and> encode_utf8 (str_lit ''name=&password=&id='') = Inr ''name=&password=&id=''"
proof -
  from assms have "http_requests (new_events w w') = [autocaris_request]"
    by (cases rule: lambda_handler_cases) simp_all
  then show ?thesis
    by (simp add: autocaris_request_shape query_utf8)
qed

text \<open>
  The request sent to an upstream that cannot be reached.
\<close>

theorem request_shape_witness:
  "http_requests (new_events world0
      (snd (lambda_handler ''tick'' () env_unreachable world0)))
     = [\<lparr>full_url = str_lit ''https://www.autocaris.cz/downloadcontent/cars.php'',
         data = Some ''name=&password=&id='',
         headers = [(str_lit ''Content-Type'',
                     str_lit ''application/x-www-form-urlencoded'')]\<rparr>]"
proof -
  have h: "lambda_handler ''tick'' () env_unreachable world0
             = (fst (lambda_handler ''tick'' () env_unreachable world0),
                snd (lambda_handler ''tick'' () env_unreachable world0))"
    by simp
  from request_shape [OF h] show ?thesis
    by (simp add: lambda_handler_outcomes env_unreachable_def autocaris_request_def)
qed

subsection \<open>Destination of the write\<close>

text \<open>
  C3. For every event, context and answer of the outside, every \<^verbatim>\<open>put_object\<close>
  call of the invocation names bucket \<^verbatim>\<open>autocaris-data\<close>, key
  \<^verbatim>\<open>inzeraty/inzeraty_usti.xml\<close> and content type \<^verbatim>\<open>application/xml\<close>; a normal
  return has made one such call; and the store is unchanged at every other
  (bucket, key).
\<close>

theorem fixed_destination:
  assumes "lambda_handler event context env w = (r, w')"
  shows "list_all (\<lambda>a. Bucket a = str_lit ''autocaris-data''
                      \<and> Key a = str_lit ''inzeraty/inzeraty_usti.xml''
                      \<and> ContentType a = str_lit ''application/xml'')
           (put_calls (new_events w w'))
       \<and> (\<forall>res. r = Inr res \<longrightarrow> length (put_calls (new_events w w')) = 1)
       \<and> (\<forall>bk. bk \<noteq> (str_lit ''autocaris-data'', str_lit ''inzeraty/inzeraty_usti.xml'')
              \<longrightarrow> s3_store w' bk = s3_store w bk)"
  using assms
  by (cases rule: lambda_handler_cases) (simp_all add: put_calls_shape autocaris_key_def)

text \<open>
  A successful run with a natural number as context.
\<close>

theorem fixed_destination_witness:
  "put_calls (new_events world0 (snd (lambda_handler ''tick'' (3::nat) (env_ok ''<cars/>'') world0)))
     = [\<lparr>Bucket = str_lit ''autocaris-data'', Key = str_lit ''inzeraty/inzeraty_usti.xml'',
         Body = ''<cars/>'', ContentType = str_lit ''application/xml''\<rparr>]"
proof -
  have h: "lambda_handler ''tick'' (3::nat) (env_ok ''<cars/>'') world0
             = (fst (lambda_handler ''tick'' (3::nat) (env_ok ''<cars/>'') world0),
                snd (lambda_handler ''tick'' (3::nat) (env_ok ''<cars/>'') world0))"
    by simp
  from fixed_destination [OF h] show ?thesis
    by (simp add: lambda_handler_outcomes env_ok_def autocaris_put_def)
qed

subsection \<open>Failures propagate\<close>

text \<open>
  C4. If \<^verbatim>\<open>urlopen\<close> raises (a transport failure or a non-success status), or
  reading the body raises, the handler ends with that error, has made no
  \<^verbatim>\<open>put_object\<close> call and leaves the store as it was. If \<^verbatim>\<open>put_object\<close> raises,
  the handler ends with that error after exactly one \<^verbatim>\<open>put_object\<close> call and
  one request: nothing is retried. A result is returned only when no call has raised.
\<close>

theorem failure_propagation:
  assumes "lambda_handler event context env w = (r, w')"
  shows "(\<forall>e. urlopen_result env autocaris_request = Inl e \<longrightarrow>
            r = Inl e \<and> put_calls (new_events w w') = [] \<and> s3_store w' = s3_store w)
       \<and> (\<forall>resp e. urlopen_result env autocaris_request = Inr resp \<and> read_result resp = Inl e \<longrightarrow>
            r = Inl e \<and> put_calls (new_events w w') = [] \<and> s3_store w' = s3_store w)
       \<and> (\<forall>resp b e. urlopen_result env autocaris_request = Inr resp \<and> read_result resp = Inr b
              \<and> client_result env (str_lit ''s3'') = None
              \<and> put_object_result env (autocaris_put b) = Some e \<longrightarrow>
            r = Inl e \<and> put_calls (new_events w w') = [autocaris_put b]
              \<and> http_requests (new_events w w') = [autocaris_request])
       \<and> (\<forall>res. r = Inr res \<longrightarrow>
            (\<exists>resp b. urlopen_result env autocaris_request = Inr resp \<and> read_result resp = Inr b
               \<and> put_object_result env (autocaris_put b) = None))"
  using assms
  by (cases rule: lambda_handler_cases) simp_all

text \<open>
  An upstream that answers 503, and a store that refuses the write.
\<close>

theorem failure_propagation_witness:
  "fst (lambda_handler ''tick'' () env_http_503 world0) = Inl (HTTPError 503)
   \<and> put_calls (new_events world0 (snd (lambda_handler ''tick'' () env_http_503 world0))) = []
   \<and> s3_store (snd (lambda_handler ''tick'' () env_http_503 world0)) = s3_store world0
   \<and> fst (lambda_handler ''tick'' () (env_store_refuses ''<cars/>'') world0) = Inl ClientError
   \<and> put_calls (new_events world0
        (snd (lambda_handler ''tick'' () (env_store_refuses ''<cars/>'') world0)))
      = [autocaris_put ''<cars/>'']"
proof -
  have h1: "lambda_handler ''tick'' () env_http_503 world0
              = (fst (lambda_handler ''tick'' () env_http_503 world0),
                 snd (lambda_handler ''tick'' () env_http_503 world0))"
    by simp
  have h2: "lambda_handler ''tick'' () (env_store_refuses ''<cars/>'') world0
              = (fst (lambda_handler ''tick'' () (env_store_refuses ''<cars/>'') world0),
                 snd (lambda_handler ''tick'' () (env_store_refuses ''<cars/>'') world0))"
    by simp
  have u1: "urlopen_result env_http_503 autocaris_request = Inl (HTTPError 503)"
    by (simp add: env_http_503_def)
  have u2: "urlopen_result (env_store_refuses ''<cars/>'') autocaris_request
              = Inr (Response (Inr ''<cars/>''))
            \<and> read_result (Response (Inr ''<cars/>'')) = Inr ''<cars/>''
            \<and> client_result (env_store_refuses ''<cars/>'') (str_lit ''s3'') = None
            \<and> put_object_result (env_store_refuses ''<cars/>'') (autocaris_put ''<cars/>'')
                = Some ClientError"
    by (simp add: env_store_refuses_def)
  from failure_propagation [OF h1] u1
  have a: "fst (lambda_handler ''tick'' () env_http_503 world0) = Inl (HTTPError 503)
           \<and> put_calls (new_events world0 (snd (lambda_handler ''tick'' () env_http_503 world0))) = []
           \<and> s3_store (snd (lambda_handler ''tick'' () env_http_503 world0)) = s3_store world0"
    by blast
  from failure_propagation [OF h2] u2
  have b: "fst (lambda_handler ''tick'' () (env_store_refuses ''<cars/>'') world0) = Inl ClientError
           \<and> put_calls (new_events world0
                (snd (lambda_handler ''tick'' () (env_store_refuses ''<cars/>'') world0)))
              = [autocaris_put ''<cars/>'']"
    by blast
  from a b show ?thesis by simp
qed

subsection \<open>Shape of the result\<close>

text \<open>
  C5. Whenever the handler returns normally, the \<^verbatim>\<open>statusCode\<close> entry of the
  returned dictionary is the integer 200 and its \<^verbatim>\<open>body\<close> entry is a string that
  contains the bucket name and the key.
\<close>

theorem result_shape:
  assumes "lambda_handler event context env w = (Inr res, w')"
  shows "map_of res (str_lit ''statusCode'') = Some (PyInt 200)
       \<and> (\<exists>msg. map_of res (str_lit ''body'') = Some (PyStr msg)
             \<and> sublist (str_lit ''autocaris-data'') msg
             \<and> sublist (str_lit ''inzeraty/inzeraty_usti.xml'') msg)"
proof -
  from assms have res: "res = success_result"
    by (cases rule: lambda_handler_cases) simp_all
  have key: "sublist (str_lit ''inzeraty/inzeraty_usti.xml'')
               (message_prefix @ str_lit ''autocaris-data'' @ str_lit ''/''
                @ str_lit ''inzeraty/inzeraty_usti.xml'')"
    using sublist_appendI [of "str_lit ''inzeraty/inzeraty_usti.xml''"
        "message_prefix @ str_lit ''autocaris-data'' @ str_lit ''/''" "[]"]
    by simp
  have bucket: "sublist (str_lit ''autocaris-data'')
               (message_prefix @ str_lit ''autocaris-data'' @ str_lit ''/''
                @ str_lit ''inzeraty/inzeraty_usti.xml'')"
    by (rule sublist_appendI)
  from res key bucket show ?thesis
    by (simp add: success_result_lookup)
qed

text \<open>
  The result of a successful run.
\<close>

theorem result_shape_witness:
  "map_of (projr (fst (lambda_handler ''tick'' () (env_ok ''<cars/>'') world0)))
     (str_lit ''statusCode'') = Some (PyInt 200)
   \<and> (\<exists>msg. map_of (projr (fst (lambda_handler ''tick'' () (env_ok ''<cars/>'') world0)))
               (str_lit ''body'') = Some (PyStr msg)
          \<and> sublist (str_lit ''autocaris-data'') msg
          \<and> sublist (str_lit ''inzeraty/inzeraty_usti.xml'') msg)"
proof -
  have h: "lambda_handler ''tick'' () (env_ok ''<cars/>'') world0
             = (Inr (projr (fst (lambda_handler ''tick'' () (env_ok ''<cars/>'') world0))),
                snd (lambda_handler ''tick'' () (env_ok ''<cars/>'') world0))"
    by (simp add: lambda_handler_outcomes env_ok_def)
  from result_shape [OF h] show ?thesis .
qed

subsection \<open>Event and context are not used\<close>

text \<open>
  C6. Two invocations that differ only in event and context, of any types, and meet
  the same outside in the same world, return the same result and leave the same world:
  the same request sent, the same object written, the same record of calls.
\<close>

theorem event_context_unused:
  "lambda_handler event1 context1 env w = lambda_handler event2 context2 env w"
  by (simp add: lambda_handler_outcomes)

subsection \<open>Last write wins\<close>

text \<open>
  C7. Two invocations in succession, the upstream answering \<open>B1\<close> and then
  \<open>B2\<close>, both returning normally: after the first the object at the fixed key has body
  \<open>B1\<close>, after the second it has body \<open>B2\<close>, and the final store is the initial
  store with that one key set to the object of \<open>B2\<close>. Nothing of \<open>B1\<close> remains:
  no merge, no append, no second version.
\<close>

theorem last_write_wins:
  assumes "urlopen_result env1 autocaris_request = Inr resp1" and "read_result resp1 = Inr B1"
      and "urlopen_result env2 autocaris_request = Inr resp2" and "read_result resp2 = Inr B2"
      and "lambda_handler event1 context1 env1 w = (Inr res1, w1)"
      and "lambda_handler event2 context2 env2 w1 = (Inr res2, w2)"
  shows "s3_store w1 (str_lit ''autocaris-data'', str_lit ''inzeraty/inzeraty_usti.xml'')
           = Some \<lparr>object_body = B1, object_content_type = str_lit ''application/xml''\<rparr>
       \<and> s3_store w2 (str_lit ''autocaris-data'', str_lit ''inzeraty/inzeraty_usti.xml'')
           = Some \<lparr>object_body = B2, object_content_type = str_lit ''application/xml''\<rparr>
       \<and> s3_store w2
           = (s3_store w)((str_lit ''autocaris-data'', str_lit ''inzeraty/inzeraty_usti.xml'')
               \<mapsto> \<lparr>object_body = B2, object_content_type = str_lit ''application/xml''\<rparr>)"
proof -
  from assms(5,1,2) have w1: "s3_store w1 = (s3_store w)(autocaris_key \<mapsto> autocaris_object B1)"
    by (cases rule: lambda_handler_cases) simp_all
  from assms(6,3,4) have w2: "s3_store w2 = (s3_store w1)(autocaris_key \<mapsto> autocaris_object B2)"
    by (cases rule: lambda_handler_cases) simp_all
  from w1 w2 show ?thesis
    by (simp add: autocaris_key_def autocaris_object_def)
qed

text \<open>
  Two runs from the empty world, with two different bodies.
\<close>

theorem last_write_wins_witness:
  "s3_store (snd (lambda_handler ''tock'' ()
                    (env_ok ''<cars><car/></cars>'')
                    (snd (lambda_handler ''tick'' () (env_ok ''<cars/>'') world0))))
     (str_lit ''autocaris-data'', str_lit ''inzeraty/inzeraty_usti.xml'')
   = Some \<lparr>object_body = ''<cars><car/></cars>'',
            object_content_type = str_lit ''application/xml''\<rparr>"
proof -
  have u1: "urlopen_result (env_ok ''<cars/>'') autocaris_request = Inr (Response (Inr ''<cars/>''))"
    by (simp add: env_ok_def)
  have u2: "urlopen_result (env_ok ''<cars><car/></cars>'') autocaris_request
              = Inr (Response (Inr ''<cars><car/></cars>''))"
    by (simp add: env_ok_def)
  have r1: "read_result (Response (Inr ''<cars/>'')) = Inr ''<cars/>''"
    by simp
  have r2: "read_result (Response (Inr ''<cars><car/></cars>'')) = Inr ''<cars><car/></cars>''"
    by simp
  have h1: "lambda_handler ''tick'' () (env_ok ''<cars/>'') world0
              = (Inr success_result, snd (lambda_handler ''tick'' () (env_ok ''<cars/>'') world0))"
    by (simp add: lambda_handler_outcomes env_ok_def)
  have h2: "lambda_handler ''tock'' () (env_ok ''<cars><car/></cars>'')
              (snd (lambda_handler ''tick'' () (env_ok ''<cars/>'') world0))
            = (Inr success_result,
               snd (lambda_handler ''tock'' () (env_ok ''<cars><car/></cars>'')
                      (snd (lambda_handler ''tick'' () (env_ok ''<cars/>'') world0))))"
    by (simp add: lambda_handler_outcomes env_ok_def)
  from last_write_wins [OF u1 r1 u2 r2 h1 h2] show ?thesis
    by simp
qed

subsection \<open>Frame: what an invocation touches\<close>




subsection \<open>Order of the calls\<close>

text \<open>
  C9. The calls of every invocation are an initial part of the sequence: request,
  whole body read, \<^verbatim>\<open>put_object\<close> with that body. So a \<^verbatim>\<open>put_object\<close> call is
  always preceded by the request and by the completed read of the body it writes. A
  result is returned only after all three, with the object already in the store.
\<close>

theorem strict_order:
  assumes "lambda_handler event context env w = (r, w')"
  shows "(\<exists>b. prefix (new_events w w')
                [HttpRequest autocaris_request, HttpBodyRead b, S3PutObject (autocaris_put b)])
       \<and> (\<forall>res. r = Inr res \<longrightarrow>
            (\<exists>b. new_events w w'
                   = [HttpRequest autocaris_request, HttpBodyRead b, S3PutObject (autocaris_put b)]
                \<and> s3_store w' autocaris_key = Some (autocaris_object b)))"
  using assms
  by (cases rule: lambda_handler_cases) (simp_all add: prefix_def)

text \<open>
  A run in which the store refuses the write: the three calls, in order.
\<close>

theorem strict_order_witness:
  "new_events world0 (snd (lambda_handler ''tick'' () (env_store_refuses ''<cars/>'') world0))
     = [HttpRequest autocaris_request, HttpBodyRead ''<cars/>'',
        S3PutObject (autocaris_put ''<cars/>'')]"
proof -
  have h: "lambda_handler ''tick'' () (env_store_refuses ''<cars/>'') world0
             = (fst (lambda_handler ''tick'' () (env_store_refuses ''<cars/>'') world0),
                snd (lambda_handler ''tick'' () (env_store_refuses ''<cars/>'') world0))"
    by simp
  from strict_order [OF h] show ?thesis
    by (simp add: lambda_handler_outcomes env_store_refuses_def)
qed

subsection \<open>The returned dictionary\<close>

text \<open>
  C10. On every normal return the dictionary has exactly the two entries
  \<^verbatim>\<open>statusCode\<close>, the integer 200, and \<^verbatim>\<open>body\<close>, the constant message: \<^verbatim>\<open>XML \<close>,
  the two Czech words (with U+00FA, U+011B, U+0161, U+011B and U+017E), and
  \<^verbatim>\<open> do s3://autocaris-data/inzeraty/inzeraty_usti.xml\<close>. It is the same for every
  event, context, response body and world.
\<close>

theorem result_constant:
  assumes "lambda_handler event context env w = (Inr res, w')"
  shows "res = [(str_lit ''statusCode'', PyInt 200),
                (str_lit ''body'',
                 PyStr (str_lit ''XML '' @ [0xFA] @ str_lit ''sp'' @ [0x11B, 0x161]
                        @ str_lit ''n'' @ [0x11B] @ str_lit '' ulo'' @ [0x17E]
                        @ str_lit ''en do s3://autocaris-data/inzeraty/inzeraty_usti.xml''))]
       \<and> distinct (map fst res) \<and> length res = 2"
proof -
  from assms have "res = success_result"
    by (cases rule: lambda_handler_cases) simp_all
  then show ?thesis
    by (simp add: success_result_def str_lit_def)
qed

text \<open>
  Two successful runs with different events, contexts and bodies return the same
  dictionary.
\<close>

theorem result_constant_witness:
  "fst (lambda_handler ''tick'' () (env_ok ''not xml at all'') world0)
     = fst (lambda_handler (42::int) ''ctx'' (env_ok []) world0)
   \<and> fst (lambda_handler ''tick'' () (env_ok ''not xml at all'') world0)
     = Inr [(str_lit ''statusCode'', PyInt 200),
            (str_lit ''body'',
             PyStr (str_lit ''XML '' @ [0xFA] @ str_lit ''sp'' @ [0x11B, 0x161]
                    @ str_lit ''n'' @ [0x11B] @ str_lit '' ulo'' @ [0x17E]
                    @ str_lit ''en do s3://autocaris-data/inzeraty/inzeraty_usti.xml''))]"
proof -
  have h: "lambda_handler ''tick'' () (env_ok ''not xml at all'') world0
             = (Inr (projr (fst (lambda_handler ''tick'' () (env_ok ''not xml at all'') world0))),
                snd (lambda_handler ''tick'' () (env_ok ''not xml at all'') world0))"
    by (simp add: lambda_handler_outcomes env_ok_def)
  from result_constant [OF h] show ?thesis
    by (simp add: lambda_handler_outcomes env_ok_def success_result_def)
qed

end
